theory Spec2Isabelle
  imports Complex_Main "HOL-Library.Word" "HOL-Library.Sublist"
begin

section \<open>Python values used by app2.py\<close>

text \<open>
  Exceptions are values. The constructors are the exception classes that the modelled
  built-ins raise; \<open>RuntimeError\<close> is a RuntimeError raised by a library or by asyncio,
  \<open>SpeedChangeFailed e\<close> is the RuntimeError that \<open>synthesize_gtts\<close> raises at line 76
  with the details \<open>e\<close>, and \<open>OtherError name\<close> is any other exception class of a
  library.
\<close>

datatype exn = ValueError | OverflowError | KeyError | TypeError | FileNotFoundError
  | RuntimeError | SpeedChangeFailed exn | OtherError string

subsection \<open>Floats (IEEE 754 binary64)\<close>

text \<open>
  A Python float is a finite double, an infinity or a NaN. A finite double is given by
  its exact rational value; the two zeros are one value, since no operation of app2.py
  tells them apart (\<open>round\<close>, \<open>abs\<close>, \<open><\<close>). Arithmetic computes the exact result
  and rounds it to the nearest double, ties to even, overflowing to an infinity.
\<close>

datatype pyfloat = Finite rat | PosInf | NegInf | NaN

function bit_length :: "int \<Rightarrow> int" where
  "bit_length n = (if n \<le> 0 then 0 else 1 + bit_length (n div 2))"
  by pat_completeness auto
termination
  by (relation "measure nat") auto

definition pow2 :: "int \<Rightarrow> rat" where
  "pow2 k = (if 0 \<le> k then 2 ^ nat k else 1 / 2 ^ nat (- k))"

definition ilog2 :: "rat \<Rightarrow> int" where
  \<comment> \<open>\<open>\<lfloor>log\<^sub>2 \<bar>r\<bar>\<rfloor>\<close> for \<open>r \<noteq> 0\<close>\<close>
  "ilog2 r = (case quotient_of \<bar>r\<bar> of (p, q) \<Rightarrow>
     let e0 = bit_length p - bit_length q
     in if pow2 e0 \<le> \<bar>r\<bar> then e0 else e0 - 1)"

definition round_half_even :: "rat \<Rightarrow> int" where
  "round_half_even r = (let f = \<lfloor>r\<rfloor>; d = r - of_int f
     in if d < 1 / 2 then f else if 1 / 2 < d then f + 1
        else if even f then f else f + 1)"

definition round_double :: "rat \<Rightarrow> pyfloat" where
  \<comment> \<open>53 significant bits, least exponent \<open>-1022\<close> (subnormals below); the rounded value
     \<open>m * 2^q\<close> overflows when it reaches \<open>2^1024\<close>, that is when \<open>m\<close> has more
     than \<open>1024 - q\<close> bits\<close>
  "round_double r = (if r = 0 then Finite 0 else
     let q = max (ilog2 r) (- 1022) - 52;
         m = round_half_even (r / pow2 q)
     in if 1024 < bit_length \<bar>m\<bar> + q then (if 0 < r then PosInf else NegInf)
        else Finite (of_int m * pow2 q))"

fun fneg :: "pyfloat \<Rightarrow> pyfloat" where
  "fneg (Finite a) = Finite (- a)"
| "fneg PosInf = NegInf"
| "fneg NegInf = PosInf"
| "fneg NaN = NaN"

fun fadd :: "pyfloat \<Rightarrow> pyfloat \<Rightarrow> pyfloat" where
  "fadd NaN _ = NaN"
| "fadd _ NaN = NaN"
| "fadd (Finite a) (Finite b) = round_double (a + b)"
| "fadd PosInf NegInf = NaN"
| "fadd NegInf PosInf = NaN"
| "fadd PosInf _ = PosInf"
| "fadd NegInf _ = NegInf"
| "fadd _ PosInf = PosInf"
| "fadd _ NegInf = NegInf"

definition fsub :: "pyfloat \<Rightarrow> pyfloat \<Rightarrow> pyfloat" where
  "fsub x y = fadd x (fneg y)"

definition fsign :: "pyfloat \<Rightarrow> int" where
  "fsign x = (case x of Finite a \<Rightarrow> (if 0 < a then 1 else if a < 0 then - 1 else 0)
     | PosInf \<Rightarrow> 1 | NegInf \<Rightarrow> - 1 | NaN \<Rightarrow> 0)"

fun fmul :: "pyfloat \<Rightarrow> pyfloat \<Rightarrow> pyfloat" where
  "fmul NaN _ = NaN"
| "fmul _ NaN = NaN"
| "fmul (Finite a) (Finite b) = round_double (a * b)"
| "fmul x y = (let s = fsign x * fsign y
     in if s = 0 then NaN else if 0 < s then PosInf else NegInf)"

fun fabs :: "pyfloat \<Rightarrow> pyfloat" where
  "fabs (Finite a) = Finite \<bar>a\<bar>"
| "fabs NaN = NaN"
| "fabs _ = PosInf"

fun flt :: "pyfloat \<Rightarrow> pyfloat \<Rightarrow> bool" where
  "flt NaN _ = False"
| "flt _ NaN = False"
| "flt (Finite a) (Finite b) = (a < b)"
| "flt PosInf _ = False"
| "flt _ NegInf = False"
| "flt _ _ = True"

text \<open>
  \<open>round(x)\<close> of a float, with no second argument: the nearest integer, ties to even;
  ValueError on a NaN and OverflowError on an infinity. \<open>int\<close> of the result is the
  identity.
\<close>

definition py_round :: "pyfloat \<Rightarrow> exn + int" where
  "py_round x = (case x of Finite a \<Rightarrow> Inr (round_half_even a)
     | NaN \<Rightarrow> Inl ValueError | _ \<Rightarrow> Inl OverflowError)"

subsection \<open>Integers as decimal strings\<close>

definition digit_char :: "nat \<Rightarrow> char" where
  "digit_char d = char_of (48 + d)"

fun str_nat :: "nat \<Rightarrow> string" where
  "str_nat n = (if n < 10 then [digit_char n]
     else str_nat (n div 10) @ [digit_char (n mod 10)])"

definition str_int :: "int \<Rightarrow> string" where
  \<comment> \<open>\<open>str(i)\<close>, which is also how an f-string renders \<open>{i}\<close>\<close>
  "str_int i = (if i < 0 then CHR ''-'' # str_nat (nat (- i)) else str_nat (nat i))"

section \<open>The settings (lines 16 to 28)\<close>

definition SPEED_OPTIONS :: "pyfloat list" where
  "SPEED_OPTIONS = [round_double (1 / 2), round_double (3 / 4), round_double 1,
     round_double (5 / 4), round_double (3 / 2)]"

section \<open>The rate string of Edge-TTS (lines 31 to 39)\<close>

definition speed_to_edge_rate :: "pyfloat \<Rightarrow> exn + string" where
  "speed_to_edge_rate x =
     (case py_round (fmul (fsub x (round_double 1)) (Finite 100)) of
        Inl e \<Rightarrow> Inl e
      | Inr pct \<Rightarrow>
          if 0 < pct then Inr (''+'' @ str_int pct @ ''%'')
          else if pct < 0 then Inr (str_int pct @ ''%'')
          else Inr ''+0%'')"

section \<open>The voice catalogue (lines 16 to 21 and line 46)\<close>

definition VOICES :: "string \<times> string \<rightharpoonup> string" where
  "VOICES = map_of
     [((''en'', ''Female''), ''en-US-JennyNeural''),
      ((''en'', ''Male''), ''en-US-GuyNeural''),
      ((''ja'', ''Female''), ''ja-JP-NanamiNeural''),
      ((''ja'', ''Male''), ''ja-JP-KeitaNeural'')]"

definition dict_index :: "('k \<rightharpoonup> 'v) \<Rightarrow> 'k \<Rightarrow> exn + 'v" where
  \<comment> \<open>\<open>d[k]\<close>\<close>
  "dict_index d k = (case d k of None \<Rightarrow> Inl KeyError | Some v \<Rightarrow> Inr v)"

definition dict_get :: "('k \<rightharpoonup> 'v) \<Rightarrow> 'k \<Rightarrow> 'v \<Rightarrow> 'v" where
  \<comment> \<open>\<open>d.get(k, default)\<close>\<close>
  "dict_get d k dflt = (case d k of None \<Rightarrow> dflt | Some v \<Rightarrow> v)"

definition resolve_voice :: "string \<Rightarrow> string \<Rightarrow> exn + string" where
  \<comment> \<open>line 46; Python evaluates the default \<open>VOICES[("en", "Female")]\<close> before the call of \<open>get\<close>\<close>
  "resolve_voice lang gender =
     (case dict_index VOICES (''en'', ''Female'') of
        Inl e \<Rightarrow> Inl e
      | Inr dflt \<Rightarrow> Inr (dict_get VOICES (lang, gender) dflt))"

section \<open>The world around the two synthesis functions\<close>

text \<open>
  The user's text is a Python \<open>str\<close>: a list of code points. Paths are the strings
  \<open>str(path)\<close>. The file system is a map from paths to contents: the directory
  \<open>outputs\<close> is made at line 42, so opening a file below it for writing succeeds.
  A chunk of the Edge-TTS stream is a dictionary.
\<close>

type_synonym ustr = "nat list"
type_synonym bytes = "8 word list"
type_synonym path = string
type_synonym segment = "int list"

datatype pyval = PStr string | PBytes bytes

type_synonym chunk = "string \<rightharpoonup> pyval"

text \<open>Every use of a backend is logged, in the order of the calls.\<close>

datatype call = EdgeCommunicate ustr string string | GTTS ustr string
  | FromFile | Speedup pyfloat | Export

datatype ui_event = Warning | Success | Audio bytes | Download bytes string
  | Info path | Error exn

record state =
  files :: "path \<rightharpoonup> bytes"
  calls :: "call list"
  ui :: "ui_event list"

text \<open>
  The libraries are parameters. \<open>Communicate env text voice rate\<close> is \<open>Inl e\<close> when the
  constructor \<open>edge_tts.Communicate\<close> raises \<open>e\<close>, and otherwise the chunks that
  \<open>stream()\<close> yields, with the exception that ends the stream early, if any: the
  connection is only made when the stream is first iterated. \<open>gTTS_save\<close> and
  \<open>export\<close> write a file: \<open>Inr b\<close> is its content, and \<open>Inl (e, left)\<close> is a
  failure \<open>e\<close> that leaves nothing (\<open>None\<close>) or a file \<open>b\<close> (\<open>Some b\<close>) at the
  path. \<open>float_str\<close> is Python's \<open>str\<close> on floats.
\<close>

record env =
  Communicate :: "ustr \<Rightarrow> string \<Rightarrow> string \<Rightarrow> exn + chunk list \<times> exn option"
  gTTS_save :: "ustr \<Rightarrow> string \<Rightarrow> exn \<times> bytes option + bytes"
  from_file :: "bytes \<Rightarrow> exn + segment"
  speedup :: "segment \<Rightarrow> pyfloat \<Rightarrow> exn + segment"
  export :: "segment \<Rightarrow> exn \<times> bytes option + bytes"
  float_str :: "pyfloat \<Rightarrow> string"

definition log_call :: "call \<Rightarrow> state \<Rightarrow> state" where
  "log_call c s = s\<lparr>calls := calls s @ [c]\<rparr>"

definition write_file :: "path \<Rightarrow> bytes \<Rightarrow> state \<Rightarrow> state" where
  "write_file p b s = s\<lparr>files := (files s)(p \<mapsto> b)\<rparr>"

definition leave_file :: "path \<Rightarrow> bytes option \<Rightarrow> state \<Rightarrow> state" where
  "leave_file p left s = (case left of None \<Rightarrow> s | Some b \<Rightarrow> write_file p b s)"

definition rename :: "path \<Rightarrow> path \<Rightarrow> state \<Rightarrow> exn + state" where
  \<comment> \<open>\<open>Path(src).rename(dst)\<close> on POSIX: the target is replaced\<close>
  "rename src dst s = (case files s src of
       None \<Rightarrow> Inl FileNotFoundError
     | Some b \<Rightarrow> Inr (s\<lparr>files := ((files s)(src := None))(dst \<mapsto> b)\<rparr>))"

definition unlink :: "path \<Rightarrow> state \<Rightarrow> state" where
  \<comment> \<open>\<open>unlink(missing_ok=True)\<close>\<close>
  "unlink p s = s\<lparr>files := (files s)(p := None)\<rparr>"

section \<open>The primary engine (lines 45 to 53)\<close>

fun write_chunks :: "chunk list \<Rightarrow> bytes \<Rightarrow> exn option \<times> bytes" where
  \<comment> \<open>the loop of lines 50 to 52 on the content written so far\<close>
  "write_chunks [] f = (None, f)"
| "write_chunks (c # cs) f =
     (case c ''type'' of
        None \<Rightarrow> (Some KeyError, f)
      | Some t \<Rightarrow>
          if t = PStr ''audio'' then
            (case c ''data'' of
               None \<Rightarrow> (Some KeyError, f)
             | Some (PBytes b) \<Rightarrow> write_chunks cs (f @ b)
             | Some (PStr _) \<Rightarrow> (Some TypeError, f))
          else write_chunks cs f)"

definition synthesize_edge_tts ::
  "env \<Rightarrow> ustr \<Rightarrow> string \<Rightarrow> string \<Rightarrow> pyfloat \<Rightarrow> path \<Rightarrow> state \<Rightarrow> (exn + path) \<times> state" where
  "synthesize_edge_tts env text lang gender speed out_path s =
     (case resolve_voice lang gender of
        Inl e \<Rightarrow> (Inl e, s)
      | Inr voice \<Rightarrow>
     (case speed_to_edge_rate speed of
        Inl e \<Rightarrow> (Inl e, s)
      | Inr rate_str \<Rightarrow>
     (let s1 = log_call (EdgeCommunicate text voice rate_str) s in
      case Communicate env text voice rate_str of
        Inl e \<Rightarrow> (Inl e, s1)
      | Inr (chunks, failure) \<Rightarrow>
          (case write_chunks chunks [] of
             (err, written) \<Rightarrow>
               let s2 = write_file out_path written s1 in
               (case err of
                  Some e \<Rightarrow> (Inl e, s2)
                | None \<Rightarrow>
                    (case failure of
                       Some e \<Rightarrow> (Inl e, s2)
                     | None \<Rightarrow> (Inr out_path, s2)))))))"

section \<open>The secondary engine (lines 55 to 78)\<close>

text \<open>
  \<open>with_suffix\<close> of pathlib, on the string of the path: the name is what follows the last
  slash, its suffix starts at its last dot unless that dot is the first or the last
  character of the name; a path with an empty name raises ValueError. The suffix given
  at line 57 is one that pathlib accepts.
\<close>

definition path_name :: "path \<Rightarrow> string" where
  "path_name p = rev (takeWhile (\<lambda>c. c \<noteq> CHR ''/'') (rev p))"

definition name_suffix :: "string \<Rightarrow> string" where
  "name_suffix n = (let t = rev (takeWhile (\<lambda>c. c \<noteq> CHR ''.'') (rev n))
     in if CHR ''.'' \<in> set n \<and> t \<noteq> [] \<and> length t + 1 < length n then CHR ''.'' # t else [])"

definition with_suffix :: "path \<Rightarrow> string \<Rightarrow> exn + path" where
  "with_suffix p sfx = (let n = path_name p
     in if n = [] then Inl ValueError
        else Inr (take (length p - length (name_suffix n)) p @ sfx))"

definition near_one :: "pyfloat \<Rightarrow> bool" where
  \<comment> \<open>line 61: \<open>abs(speed - 1.0) < 1e-6\<close>\<close>
  "near_one speed = flt (fabs (fsub speed (round_double 1))) (round_double (1 / 1000000))"

definition tempo_stretch ::
  "env \<Rightarrow> path \<Rightarrow> pyfloat \<Rightarrow> path \<Rightarrow> state \<Rightarrow> (exn + unit) \<times> state" where
  \<comment> \<open>the body of the \<open>try\<close>, lines 67 to 71\<close>
  "tempo_stretch env tmp_path speed out_path s =
     (let s1 = log_call FromFile s in
      case files s1 tmp_path of
        None \<Rightarrow> (Inl FileNotFoundError, s1)
      | Some b \<Rightarrow>
     (case from_file env b of
        Inl e \<Rightarrow> (Inl e, s1)
      | Inr seg \<Rightarrow>
     (let s2 = log_call (Speedup speed) s1 in
      case speedup env seg speed of
        Inl e \<Rightarrow> (Inl e, s2)
      | Inr adjusted \<Rightarrow>
     (let s3 = log_call Export s2 in
      case export env adjusted of
        Inl (e, left) \<Rightarrow> (Inl e, leave_file out_path left s3)
      | Inr b' \<Rightarrow> (Inr (), unlink tmp_path (write_file out_path b' s3))))))"

definition synthesize_gtts ::
  "env \<Rightarrow> ustr \<Rightarrow> string \<Rightarrow> pyfloat \<Rightarrow> path \<Rightarrow> state \<Rightarrow> (exn + path) \<times> state" where
  "synthesize_gtts env text lang speed out_path s =
     (case with_suffix out_path ''.tmp.mp3'' of
        Inl e \<Rightarrow> (Inl e, s)
      | Inr tmp_path \<Rightarrow>
     (let s1 = log_call (GTTS text lang) s in
      case gTTS_save env text lang of
        Inl (e, left) \<Rightarrow> (Inl e, leave_file tmp_path left s1)
      | Inr audio \<Rightarrow>
     (let s2 = write_file tmp_path audio s1 in
      if near_one speed then
        (case rename tmp_path out_path s2 of
           Inl e \<Rightarrow> (Inl e, s2)
         | Inr s3 \<Rightarrow> (Inr out_path, s3))
      else
        (case tempo_stretch env tmp_path speed out_path s2 of
           (Inr _, s3) \<Rightarrow> (Inr out_path, s3)
         | (Inl e, s3) \<Rightarrow>
             (case rename tmp_path out_path s3 of
                Inl e' \<Rightarrow> (Inl e', s3)
              | Inr s4 \<Rightarrow> (Inl (SpeedChangeFailed e), s4))))))"

section \<open>The handler of the Generate button (lines 86 to 149)\<close>

text \<open>
  \<open>str.strip()\<close> removes the white space at both ends; the code points that Python
  counts as white space are those of \<open>str.isspace\<close>.
\<close>

definition isspace :: "nat \<Rightarrow> bool" where
  "isspace c = ((9 \<le> c \<and> c \<le> 13) \<or> (28 \<le> c \<and> c \<le> 32) \<or> c = 133 \<or> c = 160
     \<or> c = 5760 \<or> (8192 \<le> c \<and> c \<le> 8202) \<or> c = 8232 \<or> c = 8233 \<or> c = 8239
     \<or> c = 8287 \<or> c = 12288)"

definition strip :: "ustr \<Rightarrow> ustr" where
  "strip t = rev (dropWhile isspace (rev (dropWhile isspace t)))"

definition lower :: "string \<Rightarrow> string" where
  \<comment> \<open>\<open>str.lower()\<close> on ASCII text\<close>
  "lower t = map (\<lambda>c. if 65 \<le> (of_char c :: nat) \<and> (of_char c :: nat) \<le> 90
     then char_of (of_char c + 32 :: nat) else c) t"

definition replace_char :: "char \<Rightarrow> char \<Rightarrow> string \<Rightarrow> string" where
  \<comment> \<open>\<open>str.replace\<close> of one character by another\<close>
  "replace_char a b t = map (\<lambda>c. if c = a then b else c) t"

text \<open>
  The clock reading, to the second, and its rendering by
  \<open>strftime("%Y%m%d_%H%M%S")\<close>: every field is padded with zeros, the year to four
  digits and the others to two. (Years below 1000, which the clock of a running system
  does not give, are padded by some C libraries and not by others.)
\<close>

record datetime =
  year :: nat
  month :: nat
  day :: nat
  hour :: nat
  minute :: nat
  second :: nat

definition valid_datetime :: "datetime \<Rightarrow> bool" where
  "valid_datetime d = (1000 \<le> year d \<and> year d \<le> 9999 \<and> 1 \<le> month d \<and> month d \<le> 12
     \<and> 1 \<le> day d \<and> day d \<le> 31 \<and> hour d < 24 \<and> minute d < 60 \<and> second d < 60)"

definition zero_pad :: "nat \<Rightarrow> nat \<Rightarrow> string" where
  "zero_pad w n = replicate (w - length (str_nat n)) CHR ''0'' @ str_nat n"

definition strftime :: "datetime \<Rightarrow> string" where
  "strftime d = zero_pad 4 (year d) @ zero_pad 2 (month d) @ zero_pad 2 (day d) @ ''_''
     @ zero_pad 2 (hour d) @ zero_pad 2 (minute d) @ zero_pad 2 (second d)"

text \<open>The widgets: the choices of the radio buttons and the text of the text area.\<close>

record widgets =
  w_lang_label :: ustr
  w_gender :: string
  w_engine :: string
  w_speed :: pyfloat
  w_text :: ustr

definition English :: ustr where
  "English = [69, 110, 103, 108, 105, 115, 104]"

definition lang_of :: "widgets \<Rightarrow> string" where
  \<comment> \<open>line 87\<close>
  "lang_of w = (if w_lang_label w = English then ''en'' else ''ja'')"

definition OUTPUT_DIR :: path where
  "OUTPUT_DIR = ''outputs''"

definition joinpath :: "path \<Rightarrow> string \<Rightarrow> path" where
  \<comment> \<open>\<open>directory / name\<close> for a relative name\<close>
  "joinpath d n = d @ ''/'' @ n"

definition file_name :: "env \<Rightarrow> widgets \<Rightarrow> datetime \<Rightarrow> string" where
  \<comment> \<open>lines 117 and 118\<close>
  "file_name env w now = ''tekross_voice_'' @ lang_of w @ ''_'' @ lower (w_gender w) @ ''_''
     @ replace_char CHR ''.'' CHR ''_'' (float_str env (w_speed w)) @ ''x_'' @ strftime now
     @ ''.mp3''"

definition output_path :: "env \<Rightarrow> widgets \<Rightarrow> datetime \<Rightarrow> path" where
  \<comment> \<open>line 119\<close>
  "output_path env w now = joinpath OUTPUT_DIR (file_name env w now)"

definition is_RuntimeError :: "exn \<Rightarrow> bool" where
  "is_RuntimeError e = (case e of RuntimeError \<Rightarrow> True | SpeedChangeFailed _ \<Rightarrow> True | _ \<Rightarrow> False)"

definition run_edge_tts ::
  "env \<Rightarrow> ustr \<Rightarrow> string \<Rightarrow> string \<Rightarrow> pyfloat \<Rightarrow> path \<Rightarrow> state \<Rightarrow> (exn + path) \<times> state" where
  \<comment> \<open>lines 123 to 128, in a thread with no running event loop: the coroutine is run, and
     run once more when it raises a RuntimeError\<close>
  "run_edge_tts env text lang gender speed out_path s =
     (case synthesize_edge_tts env text lang gender speed out_path s of
        (Inl e, s1) \<Rightarrow>
          if is_RuntimeError e then synthesize_edge_tts env text lang gender speed out_path s1
          else (Inl e, s1)
      | (Inr p, s1) \<Rightarrow> (Inr p, s1))"

definition show_ui :: "ui_event list \<Rightarrow> state \<Rightarrow> state" where
  "show_ui evs s = s\<lparr>ui := ui s @ evs\<rparr>"

definition on_error :: "exn \<Rightarrow> path \<Rightarrow> string \<Rightarrow> state \<Rightarrow> state" where
  \<comment> \<open>lines 143 to 149\<close>
  "on_error e out_path filename s =
     (case files s out_path of
        None \<Rightarrow> show_ui [Error e] s
      | Some b \<Rightarrow> show_ui [Error e, Audio b, Download b filename] s)"

definition generate :: "env \<Rightarrow> datetime \<Rightarrow> widgets \<Rightarrow> state \<Rightarrow> state" where
  "generate env now w s =
     (if strip (w_text w) = [] then show_ui [Warning] s
      else
        let filename = file_name env w now;
            out_path = output_path env w now
        in case (if prefix ''Edge-TTS'' (w_engine w)
                 then run_edge_tts env (w_text w) (lang_of w) (w_gender w) (w_speed w) out_path s
                 else synthesize_gtts env (w_text w) (lang_of w) (w_speed w) out_path s) of
             (Inl e, s1) \<Rightarrow> on_error e out_path filename s1
           | (Inr _, s1) \<Rightarrow>
               (case files s1 out_path of
                  None \<Rightarrow> on_error FileNotFoundError out_path filename (show_ui [Success] s1)
                | Some b \<Rightarrow>
                    show_ui [Success, Audio b, Download b filename, Info out_path] s1))"

section \<open>Notions used in the statements\<close>

text \<open>
  The number that a string of decimal digits writes, and what is taken for granted of
  Python's \<open>str\<close> on floats: how it writes the five speed options.
\<close>

definition digits_value :: "string \<Rightarrow> nat" where
  "digits_value t = foldl (\<lambda>a c. 10 * a + (of_char c - 48)) 0 t"

definition float_str_ok :: "env \<Rightarrow> bool" where
  "float_str_ok env =
     (map (float_str env) SPEED_OPTIONS = [''0.5'', ''0.75'', ''1.0'', ''1.25'', ''1.5''])"

text \<open>
  What the secondary engine does, told without paths: the exception it raises, if any,
  the content that the output path ends with (\<open>None\<close>: the path is left as it was),
  and the backends it uses. And a user-interface event without the names it shows.
\<close>

definition gtts_outcome ::
  "env \<Rightarrow> ustr \<Rightarrow> string \<Rightarrow> pyfloat \<Rightarrow> exn option \<times> bytes option \<times> call list" where
  "gtts_outcome env text lang speed =
     (case gTTS_save env text lang of
        Inl (e, left) \<Rightarrow> (Some e, None, [GTTS text lang])
      | Inr audio \<Rightarrow>
          if near_one speed then (None, Some audio, [GTTS text lang])
          else
            (case from_file env audio of
               Inl e \<Rightarrow> (Some (SpeedChangeFailed e), Some audio, [GTTS text lang, FromFile])
             | Inr seg \<Rightarrow>
                 (case speedup env seg speed of
                    Inl e \<Rightarrow> (Some (SpeedChangeFailed e), Some audio,
                      [GTTS text lang, FromFile, Speedup speed])
                  | Inr adjusted \<Rightarrow>
                      (case export env adjusted of
                         Inl (e, left) \<Rightarrow> (Some (SpeedChangeFailed e), Some audio,
                           [GTTS text lang, FromFile, Speedup speed, Export])
                       | Inr b \<Rightarrow> (None, Some b,
                           [GTTS text lang, FromFile, Speedup speed, Export])))))"

definition anonymous :: "ui_event \<Rightarrow> ui_event" where
  "anonymous ev = (case ev of Download b n \<Rightarrow> Download b [] | Info p \<Rightarrow> Info [] | _ \<Rightarrow> ev)"

text \<open>
  The tempo stretch fails with \<open>e\<close> on the audio of the temporary file when decoding
  it, speeding it up or exporting the result raises \<open>e\<close>.
\<close>

definition stretch_fails :: "env \<Rightarrow> bytes \<Rightarrow> pyfloat \<Rightarrow> exn \<Rightarrow> bool" where
  "stretch_fails env audio speed e =
     (case from_file env audio of
        Inl e1 \<Rightarrow> e1 = e
      | Inr seg \<Rightarrow>
          (case speedup env seg speed of
             Inl e2 \<Rightarrow> e2 = e
           | Inr adjusted \<Rightarrow>
               (case export env adjusted of Inl (e3, left) \<Rightarrow> e3 = e | Inr b \<Rightarrow> False)))"

text \<open>
  What the stream's contract promises of a chunk, and what the output file should hold:
  the payloads of the chunks of type "audio", in the order of arrival.
\<close>

definition well_formed :: "chunk \<Rightarrow> bool" where
  "well_formed c = (case c ''type'' of
       None \<Rightarrow> False
     | Some t \<Rightarrow> t = PStr ''audio'' \<longrightarrow>
         (case c ''data'' of Some (PBytes b) \<Rightarrow> True | _ \<Rightarrow> False))"

definition audio_payload :: "chunk list \<Rightarrow> bytes" where
  "audio_payload cs =
     concat (map (\<lambda>c. case c ''data'' of Some (PBytes b) \<Rightarrow> b | _ \<Rightarrow> [])
       (filter (\<lambda>c. c ''type'' = Some (PStr ''audio'')) cs))"

section \<open>Sample worlds\<close>

definition empty_state :: state where
  "empty_state = \<lparr>files = Map.empty, calls = [], ui = []\<rparr>"

definition audio_chunk :: "bytes \<Rightarrow> chunk" where
  "audio_chunk b = [''type'' \<mapsto> PStr ''audio'', ''data'' \<mapsto> PBytes b]"

definition boundary_chunk :: chunk where
  "boundary_chunk = [''type'' \<mapsto> PStr ''WordBoundary'', ''text'' \<mapsto> PStr ''Hi'']"

definition studio_env :: env where
  \<comment> \<open>every library works\<close>
  "studio_env = \<lparr>
     Communicate = (\<lambda>text voice rate.
       Inr ([audio_chunk [1, 2], boundary_chunk, audio_chunk [3]], None)),
     gTTS_save = (\<lambda>text lang. Inr [7, 8, 9]),
     from_file = (\<lambda>b. Inr (map uint b)),
     speedup = (\<lambda>seg x. Inr (take 2 seg)),
     export = (\<lambda>seg. Inr (map word_of_int seg)),
     float_str = (\<lambda>x. if x = Finite (1 / 2) then ''0.5'' else if x = Finite (3 / 4) then ''0.75''
       else if x = Finite 1 then ''1.0'' else if x = Finite (5 / 4) then ''1.25''
       else if x = Finite (3 / 2) then ''1.5'' else ''nan'')\<rparr>"

definition offline_env :: env where
  \<comment> \<open>the Edge-TTS service cannot be reached: the stream raises at once\<close>
  "offline_env = studio_env\<lparr>Communicate :=
     (\<lambda>text voice rate. Inr ([], Some (OtherError ''ClientConnectorError'')))\<rparr>"

definition rejecting_env :: env where
  \<comment> \<open>the constructor of \<open>edge_tts.Communicate\<close> raises\<close>
  "rejecting_env = studio_env\<lparr>Communicate := (\<lambda>text voice rate. Inl ValueError)\<rparr>"

definition no_ffmpeg_env :: env where
  \<comment> \<open>pydub finds no decoder\<close>
  "no_ffmpeg_env = studio_env\<lparr>from_file := (\<lambda>b. Inl (OtherError ''CouldntDecodeError''))\<rparr>"

definition hello :: ustr where
  "hello = [72, 105]"

definition request :: widgets where
  "request = \<lparr>w_lang_label = English, w_gender = ''Female'',
     w_engine = ''gTTS (fallback)'', w_speed = Finite (3 / 2), w_text = hello\<rparr>"

definition noon :: datetime where
  "noon = \<lparr>year = 2024, month = 3, day = 9, hour = 12, minute = 0, second = 5\<rparr>"

section \<open>Properties of the rate string\<close>

declare str_nat.simps [simp del]

lemma str_int_negative: "i < 0 \<Longrightarrow> str_int i = CHR ''-'' # str_nat (nat (- i))"
  by (simp add: str_int_def)

lemma rate_cases:
  "speed_to_edge_rate x = Inr s \<Longrightarrow>
     (\<exists>t. s = CHR ''+'' # t) \<or> (\<exists>t. s = CHR ''-'' # t)"
  by (auto simp: speed_to_edge_rate_def str_int_negative split: sum.splits if_splits)

text \<open>
  C1. On the five speeds of \<open>SPEED_OPTIONS\<close>, which are 0.5, 0.75, 1.0, 1.25 and 1.5,
  \<open>speed_to_edge_rate\<close> returns "-50%", "-25%", "+0%", "+25%" and "+50%" in this order.
\<close>

theorem rate_on_speed_options:
  "SPEED_OPTIONS = [Finite (1 / 2), Finite (3 / 4), Finite 1, Finite (5 / 4), Finite (3 / 2)]
   \<and> map speed_to_edge_rate SPEED_OPTIONS =
       [Inr ''-50%'', Inr ''-25%'', Inr ''+0%'', Inr ''+25%'', Inr ''+50%'']"
  by code_simp

lemma rate_total_on_options:
  assumes "x \<in> set SPEED_OPTIONS"
  shows "\<exists>s. speed_to_edge_rate x = Inr s"
proof -
  have m: "map speed_to_edge_rate SPEED_OPTIONS =
      [Inr ''-50%'', Inr ''-25%'', Inr ''+0%'', Inr ''+25%'', Inr ''+50%'']"
    by code_simp
  have "speed_to_edge_rate x \<in> set (map speed_to_edge_rate SPEED_OPTIONS)"
    using assms by simp
  then show ?thesis
    unfolding m by auto
qed

text \<open>
  C7. On every speed that the function is given, those of \<open>SPEED_OPTIONS\<close>, it returns
  a string and raises nothing. Whatever float \<open>x\<close> is, it never returns "0%", and
  whenever \<open>round((x - 1.0) * 100)\<close> is 0, as it is at 1.0, it returns "+0%". Beyond
  the options, it returns a string exactly when the float \<open>(x - 1.0) * 100\<close> is finite.
\<close>

theorem rate_never_unsigned_zero:
  "(x \<in> set SPEED_OPTIONS \<longrightarrow> (\<exists>s. speed_to_edge_rate x = Inr s))
   \<and> ((\<exists>s. speed_to_edge_rate x = Inr s) \<longleftrightarrow>
      (\<exists>a. fmul (fsub x (round_double 1)) (Finite 100) = Finite a))
   \<and> speed_to_edge_rate x \<noteq> Inr ''0%''
   \<and> (py_round (fmul (fsub x (round_double 1)) (Finite 100)) = Inr 0 \<longrightarrow>
        speed_to_edge_rate x = Inr ''+0%'')
   \<and> speed_to_edge_rate (Finite 1) = Inr ''+0%''"
proof (intro conjI)
  show "x \<in> set SPEED_OPTIONS \<longrightarrow> (\<exists>s. speed_to_edge_rate x = Inr s)"
    using rate_total_on_options by blast
  show "(\<exists>s. speed_to_edge_rate x = Inr s) \<longleftrightarrow>
      (\<exists>a. fmul (fsub x (round_double 1)) (Finite 100) = Finite a)"
    by (cases "fmul (fsub x (round_double 1)) (Finite 100)")
       (simp_all add: speed_to_edge_rate_def py_round_def)
  show "speed_to_edge_rate x \<noteq> Inr ''0%''"
    using rate_cases [of x "''0%''"] by auto
  show "py_round (fmul (fsub x (round_double 1)) (Finite 100)) = Inr 0 \<longrightarrow>
        speed_to_edge_rate x = Inr ''+0%''"
    by (simp add: speed_to_edge_rate_def)
  show "speed_to_edge_rate (Finite 1) = Inr ''+0%''"
    by code_simp
qed

theorem rate_never_unsigned_zero_witness:
  "Finite 1 \<in> set SPEED_OPTIONS
   \<and> py_round (fmul (fsub (Finite 1) (round_double 1)) (Finite 100)) = Inr 0
   \<and> (\<exists>s. speed_to_edge_rate (Finite 1) = Inr s)
   \<and> speed_to_edge_rate (Finite 1) = Inr ''+0%''
   \<and> speed_to_edge_rate (Finite 1) \<noteq> Inr ''0%''"
proof -
  have o: "Finite 1 \<in> set SPEED_OPTIONS"
    by code_simp
  have h: "py_round (fmul (fsub (Finite 1) (round_double 1)) (Finite 100)) = Inr 0"
    by code_simp
  note th = rate_never_unsigned_zero [of "Finite 1"]
  have t: "\<exists>s. speed_to_edge_rate (Finite 1) = Inr s"
    using th o by blast
  have z: "speed_to_edge_rate (Finite 1) = Inr ''+0%''"
    using th h by blast
  have n: "speed_to_edge_rate (Finite 1) \<noteq> Inr ''0%''"
    using th by blast
  show ?thesis
    using o h t z n by (intro conjI)
qed

section \<open>Properties of the voice catalogue\<close>

lemma VOICES_en_Female: "VOICES (''en'', ''Female'') = Some ''en-US-JennyNeural''"
  by (simp add: VOICES_def)

lemma resolve_voice_total: "\<exists>v. resolve_voice lang gender = Inr v"
  by (simp add: resolve_voice_def dict_index_def VOICES_en_Female)

text \<open>
  C5. The resolution of a voice never fails; a pair registered in \<open>VOICES\<close> resolves to
  its entry, so ("en", "Male") resolves to the English male voice; a pair that is not
  registered resolves to the entry of ("en", "Female").
\<close>

theorem voice_resolution:
  "(\<exists>v. resolve_voice lang gender = Inr v)
   \<and> (\<forall>v. VOICES (lang, gender) = Some v \<longrightarrow> resolve_voice lang gender = Inr v)
   \<and> (VOICES (lang, gender) = None \<longrightarrow> resolve_voice lang gender = Inr ''en-US-JennyNeural'')
   \<and> VOICES (''en'', ''Female'') = Some ''en-US-JennyNeural''
   \<and> VOICES (''en'', ''Male'') = Some ''en-US-GuyNeural''
   \<and> resolve_voice ''en'' ''Male'' = Inr ''en-US-GuyNeural''"
proof (intro conjI)
  show "\<exists>v. resolve_voice lang gender = Inr v"
    by (rule resolve_voice_total)
  show "\<forall>v. VOICES (lang, gender) = Some v \<longrightarrow> resolve_voice lang gender = Inr v"
    by (simp add: resolve_voice_def dict_index_def dict_get_def VOICES_en_Female)
  show "VOICES (lang, gender) = None \<longrightarrow> resolve_voice lang gender = Inr ''en-US-JennyNeural''"
    by (simp add: resolve_voice_def dict_index_def dict_get_def VOICES_en_Female)
  show "VOICES (''en'', ''Female'') = Some ''en-US-JennyNeural''"
    by (rule VOICES_en_Female)
  show "VOICES (''en'', ''Male'') = Some ''en-US-GuyNeural''"
    by (simp add: VOICES_def)
  then show "resolve_voice ''en'' ''Male'' = Inr ''en-US-GuyNeural''"
    by (simp add: resolve_voice_def dict_index_def dict_get_def VOICES_en_Female)
qed

theorem voice_resolution_witness:
  "VOICES (''ja'', ''Male'') = Some ''ja-JP-KeitaNeural''
   \<and> resolve_voice ''ja'' ''Male'' = Inr ''ja-JP-KeitaNeural''
   \<and> VOICES (''fr'', ''Female'') = None
   \<and> resolve_voice ''fr'' ''Female'' = Inr ''en-US-JennyNeural''"
proof -
  have a: "VOICES (''ja'', ''Male'') = Some ''ja-JP-KeitaNeural''"
    by (simp add: VOICES_def)
  have b: "VOICES (''fr'', ''Female'') = None"
    by (simp add: VOICES_def)
  show ?thesis
    using a b voice_resolution [of "''ja''" "''Male''"]
      voice_resolution [of "''fr''" "''Female''"]
    by simp
qed

section \<open>Properties of the primary engine\<close>

lemma write_chunks_prefix:
  "\<exists>n\<le>length cs. snd (write_chunks cs f) = f @ audio_payload (take n cs)"
proof (induction cs arbitrary: f)
  case Nil
  then show ?case by (simp add: audio_payload_def)
next
  case (Cons c cs)
  obtain n where n: "n \<le> length cs"
      "snd (write_chunks cs f) = f @ audio_payload (take n cs)"
    using Cons.IH [of f] by blast
  show ?case
  proof (cases "c ''type'' = Some (PStr ''audio'')")
    case False
    then have "snd (write_chunks (c # cs) f) = f @ audio_payload (take (Suc n) (c # cs))
        \<or> snd (write_chunks (c # cs) f) = f @ audio_payload (take 0 (c # cs))"
      using n by (auto simp: audio_payload_def split: option.splits)
    then show ?thesis using n(1)
      by (metis Suc_le_mono length_Cons zero_le)
  next
    case True
    show ?thesis
    proof (cases "c ''data''")
      case None
      then have "snd (write_chunks (c # cs) f) = f @ audio_payload (take 0 (c # cs))"
        using True by (simp add: audio_payload_def)
      then show ?thesis by (metis zero_le)
    next
      case (Some v)
      show ?thesis
      proof (cases v)
        case (PStr t)
        then have "snd (write_chunks (c # cs) f) = f @ audio_payload (take 0 (c # cs))"
          using True Some by (simp add: audio_payload_def)
        then show ?thesis by (metis zero_le)
      next
        case (PBytes b)
        obtain m where m: "m \<le> length cs"
            "snd (write_chunks cs (f @ b)) = (f @ b) @ audio_payload (take m cs)"
          using Cons.IH [of "f @ b"] by blast
        have "snd (write_chunks (c # cs) f) = f @ audio_payload (take (Suc m) (c # cs))"
          using True Some PBytes m(2) by (simp add: audio_payload_def)
        then show ?thesis using m(1)
          by (metis Suc_le_mono length_Cons)
      qed
    qed
  qed
qed

lemma write_chunks_payload:
  "list_all well_formed cs \<Longrightarrow> write_chunks cs f = (None, f @ audio_payload cs)"
  by (induction cs arbitrary: f)
     (auto simp: well_formed_def audio_payload_def split: option.splits pyval.splits)

lemma edge_file:
  assumes "resolve_voice lang gender = Inr voice"
    and "speed_to_edge_rate speed = Inr rate"
    and "Communicate env text voice rate = Inr (cs, failure)"
  shows "files (snd (synthesize_edge_tts env text lang gender speed out_path s)) out_path =
     Some (snd (write_chunks cs []))"
  using assms
  by (simp add: synthesize_edge_tts_def write_file_def Let_def split: option.splits prod.splits)

lemma edge_streamed:
  assumes "resolve_voice lang gender = Inr voice"
    and "speed_to_edge_rate speed = Inr rate"
    and "Communicate env text voice rate = Inr (cs, failure)"
    and "list_all well_formed cs"
  shows "synthesize_edge_tts env text lang gender speed out_path s =
     (case failure of Some e \<Rightarrow> Inl e | None \<Rightarrow> Inr out_path,
      write_file out_path (audio_payload cs) (log_call (EdgeCommunicate text voice rate) s))"
  using assms
  by (simp add: synthesize_edge_tts_def write_chunks_payload split: option.splits)

lemma edge_rejected:
  assumes "resolve_voice lang gender = Inr voice"
    and "speed_to_edge_rate speed = Inr rate"
    and "Communicate env text voice rate = Inl e"
  shows "synthesize_edge_tts env text lang gender speed out_path s =
     (Inl e, log_call (EdgeCommunicate text voice rate) s)"
  using assms by (simp add: synthesize_edge_tts_def)

text \<open>
  C8. Whatever chunks the stream yields, the output file holds the payloads of the audio
  chunks of a prefix of the stream, in the order of arrival, and nothing of any other
  chunk: of the whole stream when every chunk is well formed, and then the function
  returns the output path unless the stream ends with an exception.
\<close>

theorem edge_writes_audio_only:
  assumes "resolve_voice lang gender = Inr voice"
    and "speed_to_edge_rate speed = Inr rate"
    and "Communicate env text voice rate = Inr (cs, failure)"
  shows "(\<exists>n\<le>length cs.
            files (snd (synthesize_edge_tts env text lang gender speed out_path s)) out_path =
              Some (audio_payload (take n cs)))
     \<and> (list_all well_formed cs \<longrightarrow>
          files (snd (synthesize_edge_tts env text lang gender speed out_path s)) out_path =
            Some (audio_payload cs))
     \<and> (list_all well_formed cs \<longrightarrow> failure = None \<longrightarrow>
          fst (synthesize_edge_tts env text lang gender speed out_path s) = Inr out_path)"
proof (intro conjI impI)
  show "\<exists>n\<le>length cs.
      files (snd (synthesize_edge_tts env text lang gender speed out_path s)) out_path =
        Some (audio_payload (take n cs))"
    using write_chunks_prefix [of cs "[]"] edge_file [OF assms] by simp
next
  assume "list_all well_formed cs"
  then show "files (snd (synthesize_edge_tts env text lang gender speed out_path s)) out_path =
      Some (audio_payload cs)"
    using edge_streamed [OF assms] by (simp add: write_file_def)
next
  assume "list_all well_formed cs" "failure = None"
  then show "fst (synthesize_edge_tts env text lang gender speed out_path s) = Inr out_path"
    using edge_streamed [OF assms] by simp
qed

lemma rate_one: "speed_to_edge_rate (Finite 1) = Inr ''+0%''"
  by code_simp

theorem edge_writes_audio_only_witness:
  "list_all well_formed [audio_chunk [1, 2], boundary_chunk, audio_chunk [3]]
   \<and> fst (synthesize_edge_tts studio_env hello ''en'' ''Male'' (Finite 1) ''outputs/a.mp3''
        empty_state) = Inr ''outputs/a.mp3''
   \<and> files (snd (synthesize_edge_tts studio_env hello ''en'' ''Male'' (Finite 1)
        ''outputs/a.mp3'' empty_state)) ''outputs/a.mp3'' = Some [1, 2, 3]"
proof -
  have v: "resolve_voice ''en'' ''Male'' = Inr ''en-US-GuyNeural''"
    by (simp add: resolve_voice_def dict_index_def dict_get_def VOICES_def)
  have c: "Communicate studio_env hello ''en-US-GuyNeural'' ''+0%'' =
      Inr ([audio_chunk [1, 2], boundary_chunk, audio_chunk [3]], None)"
    by (simp add: studio_env_def)
  have w: "list_all well_formed [audio_chunk [1, 2], boundary_chunk, audio_chunk [3]]"
    by (simp add: well_formed_def audio_chunk_def boundary_chunk_def)
  have p: "audio_payload [audio_chunk [1, 2], boundary_chunk, audio_chunk [3]] = [1, 2, 3]"
    by (simp add: audio_payload_def audio_chunk_def boundary_chunk_def)
  show ?thesis
    using w p edge_writes_audio_only [OF v rate_one c, of "''outputs/a.mp3''" empty_state]
    by simp
qed


text \<open>
  C3, as the claim states it, fails: line 49 opens the output file before line 50 starts
  the stream, so an unreachable service leaves an empty file at the output path.
\<close>

theorem edge_offline_leaves_file:
  "fst (synthesize_edge_tts offline_env hello ''en'' ''Female'' (Finite 1) ''outputs/a.mp3''
     empty_state) = Inl (OtherError ''ClientConnectorError'')
   \<and> files empty_state ''outputs/a.mp3'' = None
   \<and> files (snd (synthesize_edge_tts offline_env hello ''en'' ''Female'' (Finite 1)
        ''outputs/a.mp3'' empty_state)) ''outputs/a.mp3'' = Some []"
proof -
  have v: "resolve_voice ''en'' ''Female'' = Inr ''en-US-JennyNeural''"
    by (simp add: resolve_voice_def dict_index_def dict_get_def VOICES_def)
  have c: "Communicate offline_env hello ''en-US-JennyNeural'' ''+0%'' =
      Inr ([], Some (OtherError ''ClientConnectorError''))"
    by (simp add: offline_env_def)
  show ?thesis
    using edge_streamed [OF v rate_one c, of "''outputs/a.mp3''" empty_state]
    by (simp add: write_file_def log_call_def empty_state_def audio_payload_def)
qed

text \<open>
  C3, amended. A failure of the stream propagates out of \<open>synthesize_edge_tts\<close>, and
  the output file exists by then: it holds the audio received before the failure. A
  failure of the constructor propagates too, and leaves the files as they were.
\<close>

theorem edge_failure_propagates:
  assumes "resolve_voice lang gender = Inr voice"
    and "speed_to_edge_rate speed = Inr rate"
  shows "(Communicate env text voice rate = Inr (cs, Some e) \<longrightarrow> list_all well_formed cs \<longrightarrow>
            fst (synthesize_edge_tts env text lang gender speed out_path s) = Inl e
          \<and> files (snd (synthesize_edge_tts env text lang gender speed out_path s)) out_path =
              Some (audio_payload cs))
     \<and> (Communicate env text voice rate = Inl e \<longrightarrow>
            fst (synthesize_edge_tts env text lang gender speed out_path s) = Inl e
          \<and> files (snd (synthesize_edge_tts env text lang gender speed out_path s)) = files s)"
proof (intro conjI impI)
  assume c: "Communicate env text voice rate = Inr (cs, Some e)" and w: "list_all well_formed cs"
  show "fst (synthesize_edge_tts env text lang gender speed out_path s) = Inl e"
    using edge_streamed [OF assms c w] by simp
  show "files (snd (synthesize_edge_tts env text lang gender speed out_path s)) out_path =
      Some (audio_payload cs)"
    using edge_streamed [OF assms c w] by (simp add: write_file_def)
next
  assume c: "Communicate env text voice rate = Inl e"
  show "fst (synthesize_edge_tts env text lang gender speed out_path s) = Inl e"
    using edge_rejected [OF assms c] by simp
  show "files (snd (synthesize_edge_tts env text lang gender speed out_path s)) = files s"
    using edge_rejected [OF assms c] by (simp add: log_call_def)
qed

theorem edge_failure_propagates_witness:
  "fst (synthesize_edge_tts offline_env hello ''ja'' ''Male'' (Finite 1) ''outputs/b.mp3''
     empty_state) = Inl (OtherError ''ClientConnectorError'')
   \<and> files (snd (synthesize_edge_tts offline_env hello ''ja'' ''Male'' (Finite 1)
        ''outputs/b.mp3'' empty_state)) ''outputs/b.mp3'' = Some []
   \<and> fst (synthesize_edge_tts rejecting_env hello ''ja'' ''Male'' (Finite 1) ''outputs/b.mp3''
        empty_state) = Inl ValueError
   \<and> files (snd (synthesize_edge_tts rejecting_env hello ''ja'' ''Male'' (Finite 1)
        ''outputs/b.mp3'' empty_state)) ''outputs/b.mp3'' = None"
proof -
  have v: "resolve_voice ''ja'' ''Male'' = Inr ''ja-JP-KeitaNeural''"
    by (simp add: resolve_voice_def dict_index_def dict_get_def VOICES_def)
  have c: "Communicate offline_env hello ''ja-JP-KeitaNeural'' ''+0%'' =
      Inr ([], Some (OtherError ''ClientConnectorError''))"
    by (simp add: offline_env_def)
  have d: "Communicate rejecting_env hello ''ja-JP-KeitaNeural'' ''+0%'' = Inl ValueError"
    by (simp add: rejecting_env_def)
  have p: "audio_payload [] = []" "list_all well_formed []"
    by (simp_all add: audio_payload_def)
  show ?thesis
    using c d p
      edge_failure_propagates [OF v rate_one, of offline_env hello "[]"
        "OtherError ''ClientConnectorError''" "''outputs/b.mp3''" empty_state]
      edge_failure_propagates [OF v rate_one, of rejecting_env hello "[]"
        ValueError "''outputs/b.mp3''" empty_state]
    by (simp add: empty_state_def)
qed

section \<open>Properties of the secondary engine\<close>

lemma tail_split: "xs = rev (dropWhile P (rev xs)) @ rev (takeWhile P (rev xs))"
proof -
  have "rev (takeWhile P (rev xs) @ dropWhile P (rev xs)) = xs" by simp
  then show ?thesis unfolding rev_append by (rule sym)
qed

lemma name_suffix_shape:
  "name_suffix n = [] \<or> (\<exists>b u. n = b @ name_suffix n \<and> name_suffix n = CHR ''.'' # u
      \<and> CHR ''.'' \<notin> set u)"
proof (cases "name_suffix n = []")
  case True
  then show ?thesis by simp
next
  case False
  define P where "P = (\<lambda>c. c \<noteq> CHR ''.'')"
  define u where "u = rev (takeWhile P (rev n))"
  have dot: "CHR ''.'' \<in> set n" and sfx: "name_suffix n = CHR ''.'' # u"
    using False by (auto simp: name_suffix_def Let_def u_def P_def split: if_splits)
  have "dropWhile P (rev n) \<noteq> []"
    using dot by (auto simp: P_def)
  then obtain d where d: "dropWhile P (rev n) = CHR ''.'' # d"
    using hd_dropWhile [of P "rev n"] by (cases "dropWhile P (rev n)") (auto simp: P_def)
  have "n = rev (dropWhile P (rev n)) @ u"
    unfolding u_def by (rule tail_split)
  then have "n = rev d @ name_suffix n"
    using d sfx by simp
  moreover have "CHR ''.'' \<notin> set u"
    using set_takeWhileD [of "CHR ''.''" P "rev n"] by (auto simp: u_def P_def)
  ultimately show ?thesis using sfx by blast
qed

lemma with_suffix_differs:
  assumes "with_suffix p ''.tmp.mp3'' = Inr t"
  shows "t \<noteq> p"
proof
  assume eq: "t = p"
  define n where "n = path_name p"
  define k where "k = length p - length (name_suffix n)"
  have t: "t = take k p @ ''.tmp.mp3''"
    using assms by (auto simp: with_suffix_def Let_def n_def k_def split: if_splits)
  obtain a where a: "p = a @ n"
    using tail_split [of p "\<lambda>c. c \<noteq> CHR ''/''"] by (auto simp: n_def path_name_def)
  from name_suffix_shape [of n] show False
  proof
    assume "name_suffix n = []"
    then have "t = p @ ''.tmp.mp3''" using t by (simp add: k_def)
    then show False using eq by simp
  next
    assume "\<exists>b u. n = b @ name_suffix n \<and> name_suffix n = CHR ''.'' # u \<and> CHR ''.'' \<notin> set u"
    then obtain b u where bu: "n = b @ name_suffix n" "name_suffix n = CHR ''.'' # u"
        "CHR ''.'' \<notin> set u"
      by blast
    have p: "p = (a @ b) @ name_suffix n" using a bu(1) by simp
    have "length p = length (a @ b) + length (name_suffix n)"
      using arg_cong [OF p, of length] by (simp del: append_assoc)
    then have "k = length (a @ b)" by (simp add: k_def)
    then have "take k p = a @ b" using p by (metis append_eq_conv_conj)
    then have "(a @ b) @ ''.tmp.mp3'' = (a @ b) @ name_suffix n" using t eq p by simp
    then have "name_suffix n = ''.tmp.mp3''" by (simp del: append_assoc)
    then have "u = ''tmp.mp3''" using bu(2) by simp
    then show False using bu(3) by simp
  qed
qed


lemma near_one_options: "map near_one SPEED_OPTIONS = [False, False, True, False, False]"
  by code_simp

lemma near_one_option_iff: "x \<in> set SPEED_OPTIONS \<Longrightarrow> near_one x \<longleftrightarrow> x = Finite 1"
proof -
  have o: "SPEED_OPTIONS = [Finite (1 / 2), Finite (3 / 4), Finite 1, Finite (5 / 4), Finite (3 / 2)]"
    by code_simp
  assume "x \<in> set SPEED_OPTIONS"
  then show ?thesis using near_one_options unfolding o by auto
qed

lemma near_one_one: "near_one (Finite 1)"
  by code_simp

lemma tempo_stretch_failure:
  assumes "files s tmp = Some audio" and "tmp \<noteq> out_path"
    and "stretch_fails env audio speed e"
  shows "\<exists>s'. tempo_stretch env tmp speed out_path s = (Inl e, s') \<and> files s' tmp = Some audio"
  using assms
  by (auto simp: tempo_stretch_def stretch_fails_def log_call_def leave_file_def write_file_def
      Let_def split: sum.splits option.splits)

text \<open>
  C6. With the secondary engine and speed 1.0, once gTTS has saved its audio, the only
  backend used is gTTS: nothing is decoded, sped up or exported. The temporary file is
  renamed to the output path, which then holds the audio of gTTS, and the function
  returns the output path.
\<close>

theorem gtts_unit_speed_skips_stretch:
  assumes "with_suffix out_path ''.tmp.mp3'' = Inr tmp"
    and "gTTS_save env text lang = Inr audio"
  shows "fst (synthesize_gtts env text lang (Finite 1) out_path s) = Inr out_path
     \<and> calls (snd (synthesize_gtts env text lang (Finite 1) out_path s)) =
         calls s @ [GTTS text lang]
     \<and> files (snd (synthesize_gtts env text lang (Finite 1) out_path s)) out_path = Some audio
     \<and> files (snd (synthesize_gtts env text lang (Finite 1) out_path s)) tmp = None"
  using assms with_suffix_differs [OF assms(1)] near_one_one
  by (simp add: synthesize_gtts_def rename_def write_file_def log_call_def Let_def)

text \<open>
  C2. With the secondary engine, a speed other than 1.0 (one of the speed options, or
  any float that fails the test of line 61) and a tempo stretch that fails with \<open>e\<close>,
  the function raises the RuntimeError of line 76 about \<open>e\<close>, and the temporary file
  has been renamed to the output path, which holds the normal-speed audio of gTTS.
\<close>

theorem gtts_stretch_failure_degrades:
  assumes "with_suffix out_path ''.tmp.mp3'' = Inr tmp"
    and "gTTS_save env text lang = Inr audio"
    and "speed \<noteq> Finite 1"
    and "speed \<in> set SPEED_OPTIONS \<or> \<not> near_one speed"
    and "stretch_fails env audio speed e"
  shows "fst (synthesize_gtts env text lang speed out_path s) = Inl (SpeedChangeFailed e)
     \<and> files (snd (synthesize_gtts env text lang speed out_path s)) out_path = Some audio
     \<and> files (snd (synthesize_gtts env text lang speed out_path s)) tmp = None"
proof -
  have far: "\<not> near_one speed"
    using assms(3,4) near_one_option_iff by blast
  define s2 where "s2 = write_file tmp audio (log_call (GTTS text lang) s)"
  have neq: "tmp \<noteq> out_path"
    using with_suffix_differs [OF assms(1)] .
  have "files s2 tmp = Some audio"
    by (simp add: s2_def write_file_def)
  then obtain s3 where s3: "tempo_stretch env tmp speed out_path s2 = (Inl e, s3)"
      "files s3 tmp = Some audio"
    using tempo_stretch_failure [OF _ neq assms(5)] by blast
  have "synthesize_gtts env text lang speed out_path s =
      (Inl (SpeedChangeFailed e), s3\<lparr>files := ((files s3)(tmp := None))(out_path \<mapsto> audio)\<rparr>)"
    using assms(1,2) far s3
    by (simp add: synthesize_gtts_def rename_def Let_def s2_def)
  then show ?thesis using neq by simp
qed


lemma sample_tmp: "with_suffix ''outputs/a.mp3'' ''.tmp.mp3'' = Inr ''outputs/a.tmp.mp3''"
  by (simp add: with_suffix_def path_name_def name_suffix_def)

theorem gtts_unit_speed_skips_stretch_witness:
  "with_suffix ''outputs/a.mp3'' ''.tmp.mp3'' = Inr ''outputs/a.tmp.mp3''
   \<and> gTTS_save no_ffmpeg_env hello ''en'' = Inr [7, 8, 9]
   \<and> fst (synthesize_gtts no_ffmpeg_env hello ''en'' (Finite 1) ''outputs/a.mp3'' empty_state) =
       Inr ''outputs/a.mp3''
   \<and> calls (snd (synthesize_gtts no_ffmpeg_env hello ''en'' (Finite 1) ''outputs/a.mp3''
        empty_state)) = [GTTS hello ''en'']
   \<and> files (snd (synthesize_gtts no_ffmpeg_env hello ''en'' (Finite 1) ''outputs/a.mp3''
        empty_state)) ''outputs/a.mp3'' = Some [7, 8, 9]"
proof -
  have g: "gTTS_save no_ffmpeg_env hello ''en'' = Inr [7, 8, 9]"
    by (simp add: no_ffmpeg_env_def studio_env_def)
  show ?thesis
    using g sample_tmp gtts_unit_speed_skips_stretch [OF sample_tmp g, of empty_state]
    by (simp add: empty_state_def)
qed

theorem gtts_stretch_failure_degrades_witness:
  "with_suffix ''outputs/a.mp3'' ''.tmp.mp3'' = Inr ''outputs/a.tmp.mp3''
   \<and> gTTS_save no_ffmpeg_env hello ''en'' = Inr [7, 8, 9]
   \<and> Finite (3 / 2) \<noteq> Finite 1
   \<and> Finite (3 / 2) \<in> set SPEED_OPTIONS
   \<and> stretch_fails no_ffmpeg_env [7, 8, 9] (Finite (3 / 2)) (OtherError ''CouldntDecodeError'')
   \<and> fst (synthesize_gtts no_ffmpeg_env hello ''en'' (Finite (3 / 2)) ''outputs/a.mp3''
        empty_state) = Inl (SpeedChangeFailed (OtherError ''CouldntDecodeError''))
   \<and> files (snd (synthesize_gtts no_ffmpeg_env hello ''en'' (Finite (3 / 2)) ''outputs/a.mp3''
        empty_state)) ''outputs/a.mp3'' = Some [7, 8, 9]
   \<and> files (snd (synthesize_gtts no_ffmpeg_env hello ''en'' (Finite (3 / 2)) ''outputs/a.mp3''
        empty_state)) ''outputs/a.tmp.mp3'' = None"
proof -
  have g: "gTTS_save no_ffmpeg_env hello ''en'' = Inr [7, 8, 9]"
    by (simp add: no_ffmpeg_env_def studio_env_def)
  have n: "Finite (3 / 2) \<noteq> Finite 1"
    by simp
  have o: "Finite (3 / 2) \<in> set SPEED_OPTIONS"
    by code_simp
  have f: "stretch_fails no_ffmpeg_env [7, 8, 9] (Finite (3 / 2)) (OtherError ''CouldntDecodeError'')"
    by (simp add: stretch_fails_def no_ffmpeg_env_def)
  show ?thesis
    using g n o f sample_tmp
      gtts_stretch_failure_degrades [OF sample_tmp g n _ f, of empty_state]
    by simp
qed

section \<open>Properties of the handler\<close>

lemma dropWhile_all: "(\<forall>x\<in>set (dropWhile P t). P x) \<longleftrightarrow> dropWhile P t = []"
proof
  assume a: "\<forall>x\<in>set (dropWhile P t). P x"
  show "dropWhile P t = []"
  proof (rule ccontr)
    assume n: "dropWhile P t \<noteq> []"
    then have "\<not> P (hd (dropWhile P t))" by (rule hd_dropWhile)
    moreover have "hd (dropWhile P t) \<in> set (dropWhile P t)" using n by simp
    ultimately show False using a by blast
  qed
qed (auto dest: set_dropWhileD)

lemma strip_empty_iff: "strip t = [] \<longleftrightarrow> (\<forall>c\<in>set t. isspace c)"
proof -
  have "strip t = [] \<longleftrightarrow> (\<forall>x\<in>set (dropWhile isspace t). isspace x)"
    by (simp add: strip_def)
  also have "\<dots> \<longleftrightarrow> dropWhile isspace t = []"
    by (rule dropWhile_all)
  also have "\<dots> \<longleftrightarrow> (\<forall>c\<in>set t. isspace c)"
    by simp
  finally show ?thesis .
qed

text \<open>
  C4. When the text is empty or holds white space only, the handler shows its warning
  and stops: no backend has been called and no file has been created or changed.
\<close>

theorem blank_text_rejected:
  assumes "\<forall>c\<in>set (w_text w). isspace c"
  shows "files (generate env now w s) = files s
     \<and> calls (generate env now w s) = calls s
     \<and> ui (generate env now w s) = ui s @ [Warning]"
  using assms by (simp add: generate_def strip_empty_iff show_ui_def)

theorem blank_text_rejected_witness:
  "list_all isspace (w_text (request\<lparr>w_text := [32, 12288, 10]\<rparr>))
   \<and> files (generate studio_env noon (request\<lparr>w_text := [32, 12288, 10]\<rparr>) empty_state) =
       Map.empty
   \<and> calls (generate studio_env noon (request\<lparr>w_text := [32, 12288, 10]\<rparr>) empty_state) = []
   \<and> ui (generate studio_env noon (request\<lparr>w_text := [32, 12288, 10]\<rparr>) empty_state) =
       [Warning]"
proof -
  have h: "\<forall>c\<in>set (w_text (request\<lparr>w_text := [32, 12288, 10]\<rparr>)). isspace c"
    by (simp add: isspace_def)
  show ?thesis
    using h blank_text_rejected [OF h, of studio_env noon empty_state]
    by (simp add: empty_state_def)
qed

subsection \<open>The name of the output file\<close>

lemma digit_char_value: "d < 10 \<Longrightarrow> (of_char (digit_char d) :: nat) = 48 + d"
  by (simp add: digit_char_def)

lemma digits_value_snoc:
  "digits_value (t @ [c]) = 10 * digits_value t + (of_char c - 48)"
  by (simp add: digits_value_def)

lemma digits_value_str_nat: "digits_value (str_nat n) = n"
proof (induction n rule: str_nat.induct)
  case (1 n)
  show ?case
  proof (cases "n < 10")
    case True
    then have "str_nat n = [digit_char n]" by (simp add: str_nat.simps)
    then show ?thesis using True by (simp add: digits_value_def digit_char_value)
  next
    case False
    then have "str_nat n = str_nat (n div 10) @ [digit_char (n mod 10)]"
      by (subst str_nat.simps) simp
    then show ?thesis
      using 1 False by (simp add: digits_value_snoc digit_char_value)
  qed
qed

lemma digits_value_zeros: "digits_value (replicate k CHR ''0'' @ t) = digits_value t"
proof -
  have "foldl (\<lambda>a c. 10 * a + (of_char c - 48)) (0::nat) (replicate k CHR ''0'') = 0"
    by (induction k) simp_all
  then show ?thesis by (simp add: digits_value_def)
qed

lemma digits_value_zero_pad: "digits_value (zero_pad w n) = n"
  by (simp add: zero_pad_def digits_value_zeros digits_value_str_nat)

lemma length_str_nat_2: "n < 100 \<Longrightarrow> length (str_nat n) \<le> 2"
  by (subst str_nat.simps, subst str_nat.simps) simp

lemma length_str_nat_4: "n < 10000 \<Longrightarrow> length (str_nat n) \<le> 4"
  by (subst str_nat.simps, subst str_nat.simps, subst str_nat.simps, subst str_nat.simps) simp

lemma length_zero_pad: "length (str_nat n) \<le> w \<Longrightarrow> length (zero_pad w n) = w"
  by (simp add: zero_pad_def)

lemma zero_pad_inj:
  assumes "zero_pad w m = zero_pad w n"
  shows "m = n"
  using arg_cong [OF assms, of digits_value] by (simp add: digits_value_zero_pad)

lemma strftime_injective:
  assumes "valid_datetime d1" and "valid_datetime d2" and "strftime d1 = strftime d2"
  shows "d1 = d2"
proof -
  have l1: "length (zero_pad 4 (year d1)) = 4" "length (zero_pad 2 (month d1)) = 2"
      "length (zero_pad 2 (day d1)) = 2" "length (zero_pad 2 (hour d1)) = 2"
      "length (zero_pad 2 (minute d1)) = 2" "length (zero_pad 2 (second d1)) = 2"
    using assms(1) by (simp_all add: valid_datetime_def length_zero_pad length_str_nat_2
        length_str_nat_4)
  have l2: "length (zero_pad 4 (year d2)) = 4" "length (zero_pad 2 (month d2)) = 2"
      "length (zero_pad 2 (day d2)) = 2" "length (zero_pad 2 (hour d2)) = 2"
      "length (zero_pad 2 (minute d2)) = 2" "length (zero_pad 2 (second d2)) = 2"
    using assms(2) by (simp_all add: valid_datetime_def length_zero_pad length_str_nat_2
        length_str_nat_4)
  have "zero_pad 4 (year d1) = zero_pad 4 (year d2) \<and> zero_pad 2 (month d1) = zero_pad 2 (month d2)
      \<and> zero_pad 2 (day d1) = zero_pad 2 (day d2) \<and> zero_pad 2 (hour d1) = zero_pad 2 (hour d2)
      \<and> zero_pad 2 (minute d1) = zero_pad 2 (minute d2)
      \<and> zero_pad 2 (second d1) = zero_pad 2 (second d2)"
    using assms(3) l1 l2 by (simp add: strftime_def)
  then have "year d1 = year d2 \<and> month d1 = month d2 \<and> day d1 = day d2 \<and> hour d1 = hour d2
      \<and> minute d1 = minute d2 \<and> second d1 = second d2"
    by (blast dest: zero_pad_inj)
  then show ?thesis by simp
qed

lemma length_strftime: "valid_datetime d \<Longrightarrow> length (strftime d) = 15"
  by (simp add: strftime_def valid_datetime_def length_zero_pad length_str_nat_2
      length_str_nat_4)

lemma options_list:
  "SPEED_OPTIONS = [Finite (1 / 2), Finite (3 / 4), Finite 1, Finite (5 / 4), Finite (3 / 2)]"
  by code_simp

lemma speed_text_cases:
  assumes "float_str_ok env" and "x \<in> set SPEED_OPTIONS"
  shows "(x = Finite (1 / 2) \<and> replace_char CHR ''.'' CHR ''_'' (float_str env x) = ''0_5'')
     \<or> (x = Finite (3 / 4) \<and> replace_char CHR ''.'' CHR ''_'' (float_str env x) = ''0_75'')
     \<or> (x = Finite 1 \<and> replace_char CHR ''.'' CHR ''_'' (float_str env x) = ''1_0'')
     \<or> (x = Finite (5 / 4) \<and> replace_char CHR ''.'' CHR ''_'' (float_str env x) = ''1_25'')
     \<or> (x = Finite (3 / 2) \<and> replace_char CHR ''.'' CHR ''_'' (float_str env x) = ''1_5'')"
  using assms unfolding float_str_ok_def options_list
  by (auto simp: replace_char_def)

lemma speed_text_injective:
  assumes "float_str_ok env" and "x \<in> set SPEED_OPTIONS" and "y \<in> set SPEED_OPTIONS"
    and "replace_char CHR ''.'' CHR ''_'' (float_str env x) @ ''x_'' @ t =
         replace_char CHR ''.'' CHR ''_'' (float_str env y) @ ''x_'' @ u"
  shows "x = y \<and> t = u"
  using speed_text_cases [OF assms(1,2)] speed_text_cases [OF assms(1,3)] assms(4)
  by (elim disjE conjE) simp_all

lemma lower_Female: "lower ''Female'' = ''female''"
  by code_simp

lemma lower_Male: "lower ''Male'' = ''male''"
  by code_simp

lemma gender_text_injective:
  assumes "g \<in> {''Female'', ''Male''}" and "h \<in> {''Female'', ''Male''}"
    and "lower g @ ''_'' @ t = lower h @ ''_'' @ u"
  shows "g = h \<and> t = u"
  using assms by (auto simp: lower_Female lower_Male)

lemma lang_text_injective:
  assumes "lang_of v @ t = lang_of w @ u"
  shows "lang_of v = lang_of w \<and> t = u"
  using assms by (auto simp: lang_of_def split: if_splits)

lemma file_name_injective:
  assumes ok: "float_str_ok env"
    and g: "w_gender w1 \<in> {''Female'', ''Male''}" "w_gender w2 \<in> {''Female'', ''Male''}"
    and sp: "w_speed w1 \<in> set SPEED_OPTIONS" "w_speed w2 \<in> set SPEED_OPTIONS"
    and v: "valid_datetime d1" "valid_datetime d2"
    and eq: "file_name env w1 d1 = file_name env w2 d2"
  shows "lang_of w1 = lang_of w2 \<and> w_gender w1 = w_gender w2 \<and> w_speed w1 = w_speed w2 \<and> d1 = d2"
proof -
  let ?s1 = "replace_char CHR ''.'' CHR ''_'' (float_str env (w_speed w1))"
  let ?s2 = "replace_char CHR ''.'' CHR ''_'' (float_str env (w_speed w2))"
  have a: "lang_of w1 @ (''_'' @ lower (w_gender w1) @ ''_'' @ ?s1 @ ''x_'' @ strftime d1 @ ''.mp3'') =
      lang_of w2 @ (''_'' @ lower (w_gender w2) @ ''_'' @ ?s2 @ ''x_'' @ strftime d2 @ ''.mp3'')"
    using eq by (simp add: file_name_def)
  have l: "lang_of w1 = lang_of w2"
    and b: "lower (w_gender w1) @ ''_'' @ (?s1 @ ''x_'' @ strftime d1 @ ''.mp3'') =
      lower (w_gender w2) @ ''_'' @ (?s2 @ ''x_'' @ strftime d2 @ ''.mp3'')"
    using lang_text_injective [OF a] by simp_all
  have ge: "w_gender w1 = w_gender w2"
    and c: "?s1 @ ''x_'' @ (strftime d1 @ ''.mp3'') = ?s2 @ ''x_'' @ (strftime d2 @ ''.mp3'')"
    using gender_text_injective [OF g b] by simp_all
  have se: "w_speed w1 = w_speed w2" and t: "strftime d1 @ ''.mp3'' = strftime d2 @ ''.mp3''"
    using speed_text_injective [OF ok sp c] by simp_all
  have "d1 = d2"
    using strftime_injective [OF v] t by simp
  then show ?thesis using l ge se by simp
qed

text \<open>
  C9. The output path is \<open>outputs/tekross_voice_{language}_{gender}_{speed}x_{timestamp}.mp3\<close>,
  with the gender in lower case, the dot of the speed replaced by an underscore and a
  timestamp of 15 characters. For the choices that the widgets offer and clock readings
  to the second, two requests get the same path exactly when their language, gender,
  speed and clock reading are the same; so the name tells the language, the gender and
  the speed, and two timestamps that differ give two names.
\<close>

theorem output_name_encodes_request:
  assumes "float_str_ok env"
    and "w_gender w1 \<in> {''Female'', ''Male''}" and "w_gender w2 \<in> {''Female'', ''Male''}"
    and "w_speed w1 \<in> set SPEED_OPTIONS" and "w_speed w2 \<in> set SPEED_OPTIONS"
    and "valid_datetime d1" and "valid_datetime d2"
  shows "output_path env w1 d1 =
       ''outputs/tekross_voice_'' @ lang_of w1 @ ''_'' @ lower (w_gender w1) @ ''_''
         @ replace_char CHR ''.'' CHR ''_'' (float_str env (w_speed w1)) @ ''x_''
         @ strftime d1 @ ''.mp3''
     \<and> length (strftime d1) = 15
     \<and> ((output_path env w1 d1 = output_path env w2 d2) =
          (lang_of w1 = lang_of w2 \<and> w_gender w1 = w_gender w2 \<and> w_speed w1 = w_speed w2
           \<and> d1 = d2))
     \<and> (strftime d1 \<noteq> strftime d2 \<longrightarrow> output_path env w1 d1 \<noteq> output_path env w2 d2)"
proof (intro conjI)
  show "output_path env w1 d1 =
       ''outputs/tekross_voice_'' @ lang_of w1 @ ''_'' @ lower (w_gender w1) @ ''_''
         @ replace_char CHR ''.'' CHR ''_'' (float_str env (w_speed w1)) @ ''x_''
         @ strftime d1 @ ''.mp3''"
    by (simp add: output_path_def joinpath_def OUTPUT_DIR_def file_name_def)
  show "length (strftime d1) = 15"
    using assms(6) by (rule length_strftime)
  have paths: "output_path env w1 d1 = output_path env w2 d2 \<longleftrightarrow>
      file_name env w1 d1 = file_name env w2 d2"
    by (simp add: output_path_def joinpath_def)
  show iff: "(output_path env w1 d1 = output_path env w2 d2) =
      (lang_of w1 = lang_of w2 \<and> w_gender w1 = w_gender w2 \<and> w_speed w1 = w_speed w2
       \<and> d1 = d2)"
  proof
    assume "output_path env w1 d1 = output_path env w2 d2"
    then have "file_name env w1 d1 = file_name env w2 d2"
      using paths by simp
    then show "lang_of w1 = lang_of w2 \<and> w_gender w1 = w_gender w2 \<and> w_speed w1 = w_speed w2
        \<and> d1 = d2"
      by (rule file_name_injective [OF assms])
  next
    assume "lang_of w1 = lang_of w2 \<and> w_gender w1 = w_gender w2 \<and> w_speed w1 = w_speed w2
        \<and> d1 = d2"
    then show "output_path env w1 d1 = output_path env w2 d2"
      by (simp add: output_path_def file_name_def)
  qed
  show "strftime d1 \<noteq> strftime d2 \<longrightarrow> output_path env w1 d1 \<noteq> output_path env w2 d2"
    using iff by auto
qed

lemma sample_float_str: "float_str_ok studio_env"
  by code_simp

lemma sample_speed: "Finite (3 / 2) \<in> set SPEED_OPTIONS"
  by code_simp

theorem output_name_encodes_request_witness:
  "float_str_ok studio_env
   \<and> w_gender request \<in> {''Female'', ''Male''}
   \<and> w_speed request \<in> set SPEED_OPTIONS
   \<and> valid_datetime noon \<and> valid_datetime (noon\<lparr>second := 6\<rparr>)
   \<and> strftime noon \<noteq> strftime (noon\<lparr>second := 6\<rparr>)
   \<and> output_path studio_env request noon =
       ''outputs/tekross_voice_en_female_1_5x_20240309_120005.mp3''
   \<and> output_path studio_env request noon \<noteq> output_path studio_env request (noon\<lparr>second := 6\<rparr>)"
proof -
  have g: "w_gender request \<in> {''Female'', ''Male''}"
    by (simp add: request_def)
  have sp: "w_speed request \<in> set SPEED_OPTIONS"
    using sample_speed by (simp add: request_def)
  have v: "valid_datetime noon" "valid_datetime (noon\<lparr>second := 6\<rparr>)"
    by (simp_all add: valid_datetime_def noon_def)
  have t: "strftime noon \<noteq> strftime (noon\<lparr>second := 6\<rparr>)"
    by code_simp
  have p: "''outputs/tekross_voice_'' @ lang_of request @ ''_'' @ lower (w_gender request) @ ''_''
         @ replace_char CHR ''.'' CHR ''_'' (float_str studio_env (w_speed request)) @ ''x_''
         @ strftime noon @ ''.mp3'' = ''outputs/tekross_voice_en_female_1_5x_20240309_120005.mp3''"
    by code_simp
  note th = output_name_encodes_request [OF sample_float_str g g sp sp v]
  have a: "output_path studio_env request noon =
       ''outputs/tekross_voice_'' @ lang_of request @ ''_'' @ lower (w_gender request) @ ''_''
         @ replace_char CHR ''.'' CHR ''_'' (float_str studio_env (w_speed request)) @ ''x_''
         @ strftime noon @ ''.mp3''"
    using th by (rule conjunct1)
  have b: "output_path studio_env request noon =
      ''outputs/tekross_voice_en_female_1_5x_20240309_120005.mp3''"
    using a p by (rule trans)
  have c: "output_path studio_env request noon \<noteq>
      output_path studio_env request (noon\<lparr>second := 6\<rparr>)"
    using th t by blast
  show ?thesis
    using sample_float_str g sp v t b c by (intro conjI)
qed

subsection \<open>The gender and the secondary engine\<close>

lemma gtts_by_outcome:
  assumes "with_suffix out_path ''.tmp.mp3'' = Inr tmp"
  shows "fst (synthesize_gtts env text lang speed out_path s) =
       (case fst (gtts_outcome env text lang speed) of None \<Rightarrow> Inr out_path | Some e \<Rightarrow> Inl e)
     \<and> calls (snd (synthesize_gtts env text lang speed out_path s)) =
         calls s @ snd (snd (gtts_outcome env text lang speed))
     \<and> files (snd (synthesize_gtts env text lang speed out_path s)) out_path =
         (case fst (snd (gtts_outcome env text lang speed)) of
            None \<Rightarrow> files s out_path | Some b \<Rightarrow> Some b)
     \<and> ui (snd (synthesize_gtts env text lang speed out_path s)) = ui s"
proof -
  have neq: "tmp \<noteq> out_path"
    using with_suffix_differs [OF assms] .
  show ?thesis
    using assms neq
    by (auto simp: synthesize_gtts_def gtts_outcome_def tempo_stretch_def rename_def
        write_file_def leave_file_def unlink_def log_call_def Let_def
        split: sum.splits option.splits prod.splits)
qed

lemma with_suffix_mp3: "\<exists>tmp. with_suffix (xs @ ''.mp3'') sfx = Inr tmp"
proof -
  have "path_name (xs @ ''.mp3'') \<noteq> []"
    by (simp add: path_name_def)
  then show ?thesis
    by (simp add: with_suffix_def Let_def)
qed

lemma output_path_tmp: "\<exists>tmp. with_suffix (output_path env w now) ''.tmp.mp3'' = Inr tmp"
proof -
  have "\<exists>xs. output_path env w now = xs @ ''.mp3''"
    unfolding output_path_def joinpath_def file_name_def
    by (metis append.assoc)
  then show ?thesis
    using with_suffix_mp3 by metis
qed

lemma generate_gtts:
  assumes "\<not> prefix ''Edge-TTS'' (w_engine w)" and "strip (w_text w) \<noteq> []"
  shows "calls (generate env now w s) =
       calls s @ snd (snd (gtts_outcome env (w_text w) (lang_of w) (w_speed w)))
     \<and> files (generate env now w s) (output_path env w now) =
         (case fst (snd (gtts_outcome env (w_text w) (lang_of w) (w_speed w))) of
            None \<Rightarrow> files s (output_path env w now) | Some b \<Rightarrow> Some b)
     \<and> map anonymous (ui (generate env now w s)) = map anonymous (ui s) @
         (case (fst (gtts_outcome env (w_text w) (lang_of w) (w_speed w)),
                files (generate env now w s) (output_path env w now)) of
            (Some e, None) \<Rightarrow> [Error e]
          | (Some e, Some b) \<Rightarrow> [Error e, Audio b, Download b []]
          | (None, None) \<Rightarrow> [Success, Error FileNotFoundError]
          | (None, Some b) \<Rightarrow> [Success, Audio b, Download b [], Info []])"
proof -
  obtain tmp where tmp: "with_suffix (output_path env w now) ''.tmp.mp3'' = Inr tmp"
    using output_path_tmp by blast
  obtain r s1 where R: "synthesize_gtts env (w_text w) (lang_of w) (w_speed w)
      (output_path env w now) s = (r, s1)"
    by (cases "synthesize_gtts env (w_text w) (lang_of w) (w_speed w) (output_path env w now) s")
  note oc = gtts_by_outcome [OF tmp, of env "w_text w" "lang_of w" "w_speed w" s, unfolded R]
  have r: "r = (case fst (gtts_outcome env (w_text w) (lang_of w) (w_speed w)) of
      None \<Rightarrow> Inr (output_path env w now) | Some e \<Rightarrow> Inl e)"
    using oc by simp
  have c: "calls s1 = calls s @ snd (snd (gtts_outcome env (w_text w) (lang_of w) (w_speed w)))"
    using oc by simp
  have f: "files s1 (output_path env w now) =
      (case fst (snd (gtts_outcome env (w_text w) (lang_of w) (w_speed w))) of
         None \<Rightarrow> files s (output_path env w now) | Some b \<Rightarrow> Some b)"
    using oc by simp
  have u: "ui s1 = ui s"
    using oc by simp
  have g: "generate env now w s =
      (case r of
         Inl e \<Rightarrow> on_error e (output_path env w now) (file_name env w now) s1
       | Inr p \<Rightarrow>
           (case files s1 (output_path env w now) of
              None \<Rightarrow> on_error FileNotFoundError (output_path env w now) (file_name env w now)
                (show_ui [Success] s1)
            | Some b \<Rightarrow> show_ui [Success, Audio b, Download b (file_name env w now),
                Info (output_path env w now)] s1))"
    using assms R by (simp add: generate_def Let_def)
  have cg: "calls (generate env now w s) = calls s1"
    unfolding g by (simp add: on_error_def show_ui_def split: sum.splits option.splits)
  have fg: "files (generate env now w s) = files s1"
    unfolding g by (simp add: on_error_def show_ui_def split: sum.splits option.splits)
  have ug: "map anonymous (ui (generate env now w s)) = map anonymous (ui s1) @
      (case (fst (gtts_outcome env (w_text w) (lang_of w) (w_speed w)),
             files s1 (output_path env w now)) of
         (Some e, None) \<Rightarrow> [Error e]
       | (Some e, Some b) \<Rightarrow> [Error e, Audio b, Download b []]
       | (None, None) \<Rightarrow> [Success, Error FileNotFoundError]
       | (None, Some b) \<Rightarrow> [Success, Audio b, Download b [], Info []])"
    unfolding g r
    by (simp add: on_error_def show_ui_def anonymous_def split: sum.splits option.splits)
  show ?thesis
    using cg fg ug c f u by simp
qed

text \<open>
  C10. With the secondary engine, take two requests that differ in the gender only, from
  the same state, in which the two output paths hold the same (for instance nothing).
  Both use the same backends in the same order, gTTS first and with the text and the
  language of the request; their output paths end with the same content; and what the
  user is shown is the same but for the file names.
\<close>

theorem gender_does_not_reach_gtts:
  assumes "\<not> prefix ''Edge-TTS'' (w_engine w)"
    and "strip (w_text w) \<noteq> []"
    and "files s (output_path env (w\<lparr>w_gender := g1\<rparr>) now) =
         files s (output_path env (w\<lparr>w_gender := g2\<rparr>) now)"
  shows "(\<exists>rest. calls (generate env now (w\<lparr>w_gender := g1\<rparr>) s) =
            calls s @ GTTS (w_text w) (lang_of w) # rest)
     \<and> calls (generate env now (w\<lparr>w_gender := g1\<rparr>) s) =
         calls (generate env now (w\<lparr>w_gender := g2\<rparr>) s)
     \<and> files (generate env now (w\<lparr>w_gender := g1\<rparr>) s)
           (output_path env (w\<lparr>w_gender := g1\<rparr>) now) =
         files (generate env now (w\<lparr>w_gender := g2\<rparr>) s)
           (output_path env (w\<lparr>w_gender := g2\<rparr>) now)
     \<and> map anonymous (ui (generate env now (w\<lparr>w_gender := g1\<rparr>) s)) =
         map anonymous (ui (generate env now (w\<lparr>w_gender := g2\<rparr>) s))"
proof -
  have l: "lang_of (w\<lparr>w_gender := g\<rparr>) = lang_of w" for g
    by (simp add: lang_of_def)
  have a: "\<not> prefix ''Edge-TTS'' (w_engine (w\<lparr>w_gender := g\<rparr>))"
      "strip (w_text (w\<lparr>w_gender := g\<rparr>)) \<noteq> []" for g
    using assms(1,2) by simp_all
  note r1 = generate_gtts [of "w\<lparr>w_gender := g1\<rparr>" env now s, OF a, unfolded l, simplified]
  note r2 = generate_gtts [of "w\<lparr>w_gender := g2\<rparr>" env now s, OF a, unfolded l, simplified]
  have f: "files (generate env now (w\<lparr>w_gender := g1\<rparr>) s)
        (output_path env (w\<lparr>w_gender := g1\<rparr>) now) =
      files (generate env now (w\<lparr>w_gender := g2\<rparr>) s)
        (output_path env (w\<lparr>w_gender := g2\<rparr>) now)"
    by (simp only: r1 [THEN conjunct2, THEN conjunct1] r2 [THEN conjunct2, THEN conjunct1]
        assms(3))
  have c: "calls (generate env now (w\<lparr>w_gender := g1\<rparr>) s) =
      calls (generate env now (w\<lparr>w_gender := g2\<rparr>) s)"
    by (simp only: r1 [THEN conjunct1] r2 [THEN conjunct1])
  have u: "map anonymous (ui (generate env now (w\<lparr>w_gender := g1\<rparr>) s)) =
      map anonymous (ui (generate env now (w\<lparr>w_gender := g2\<rparr>) s))"
    by (simp only: r1 [THEN conjunct2, THEN conjunct2] r2 [THEN conjunct2, THEN conjunct2] f)
  have "\<exists>rest. snd (snd (gtts_outcome env (w_text w) (lang_of w) (w_speed w))) =
      GTTS (w_text w) (lang_of w) # rest"
    by (simp add: gtts_outcome_def split: sum.splits prod.splits)
  then have g: "\<exists>rest. calls (generate env now (w\<lparr>w_gender := g1\<rparr>) s) =
      calls s @ GTTS (w_text w) (lang_of w) # rest"
    using r1 [THEN conjunct1] by auto
  show ?thesis
    using g c f u by (intro conjI)
qed

theorem gender_does_not_reach_gtts_witness:
  "\<not> prefix ''Edge-TTS'' (w_engine request)
   \<and> strip (w_text request) \<noteq> []
   \<and> output_path studio_env (request\<lparr>w_gender := ''Female''\<rparr>) noon \<noteq>
       output_path studio_env (request\<lparr>w_gender := ''Male''\<rparr>) noon
   \<and> calls (generate studio_env noon (request\<lparr>w_gender := ''Female''\<rparr>) empty_state) =
       calls (generate studio_env noon (request\<lparr>w_gender := ''Male''\<rparr>) empty_state)
   \<and> files (generate studio_env noon (request\<lparr>w_gender := ''Female''\<rparr>) empty_state)
         (output_path studio_env (request\<lparr>w_gender := ''Female''\<rparr>) noon) =
       files (generate studio_env noon (request\<lparr>w_gender := ''Male''\<rparr>) empty_state)
         (output_path studio_env (request\<lparr>w_gender := ''Male''\<rparr>) noon)
   \<and> files (generate studio_env noon (request\<lparr>w_gender := ''Male''\<rparr>) empty_state)
         (output_path studio_env (request\<lparr>w_gender := ''Male''\<rparr>) noon) = Some [7, 8]"
proof -
  have e: "\<not> prefix ''Edge-TTS'' (w_engine request)"
    by (simp add: request_def)
  have t: "strip (w_text request) \<noteq> []"
    by code_simp
  have f: "files empty_state (output_path studio_env (request\<lparr>w_gender := ''Female''\<rparr>) noon) =
      files empty_state (output_path studio_env (request\<lparr>w_gender := ''Male''\<rparr>) noon)"
    by (simp add: empty_state_def)
  have p: "output_path studio_env (request\<lparr>w_gender := ''Female''\<rparr>) noon \<noteq>
      output_path studio_env (request\<lparr>w_gender := ''Male''\<rparr>) noon"
    by code_simp
  have v: "files (generate studio_env noon (request\<lparr>w_gender := ''Male''\<rparr>) empty_state)
      (output_path studio_env (request\<lparr>w_gender := ''Male''\<rparr>) noon) = Some [7, 8]"
    by code_simp
  note th = gender_does_not_reach_gtts [OF e t f]
  show ?thesis
    using e t p th [THEN conjunct2, THEN conjunct1]
      th [THEN conjunct2, THEN conjunct2, THEN conjunct1] v
    by (intro conjI)
qed

end
